theory Spec2Isabelle
  imports Complex_Main
begin

section \<open>Data model (apiService.ts, types/index.ts, the dashboard component)\<close>

text \<open>
  A JavaScript number is a real; \<open>NaN\<close> and the infinities are not represented. The
  arithmetic of \<open>calculateAQI\<close> rounds every result to the nearest binary64 number, as the
  source does (see \<open>double\<close> below); the sums of the mean and the formulas of the mock
  generators are read as exact arithmetic. A property of an upstream JSON body that may be
  absent (\<open>undefined\<close> or \<open>null\<close>) is an \<open>option\<close>. Source strings are the byte sequences
  of the UTF-8 source file. Instants are milliseconds since the epoch, and a calendar date
  string (\<open>toISOString().split('T')[0]\<close>) is represented by the number of the day it names.
\<close>

type_synonym timestamp = int
type_synonym isodate = int

record Station =
  st_id :: int
  st_name :: string
  st_lat :: real
  st_lon :: real
  st_county :: string
  st_city :: "string option"

record AirQualityMeasurement =
  pm25 :: real
  pm10 :: real
  no2 :: real
  o3 :: real
  so2 :: real
  co :: real

record AirQualityData =
  stationId :: int
  stationName :: string
  timestamp :: timestamp
  measurements :: AirQualityMeasurement
  aqi :: real

record WeatherData =
  wd_timestamp :: timestamp
  temperature :: real
  humidity :: real
  windSpeed :: real
  pressure :: real
  uvIndex :: real

record HistoricalDataPoint =
  date :: isodate
  hp_aqi :: real
  hp_pm25 :: real
  hp_pm10 :: real
  hp_temperature :: "real option"

text \<open>The dashboard component's own station row (interface \<open>AirQualityStation\<close>).\<close>

record AirQualityStation =
  station :: string
  as_pm25 :: real
  as_pm10 :: real
  as_no2 :: real
  as_o3 :: real
  as_so2 :: real
  as_aqi :: real

text \<open>
  The body of a measurement response as \<open>calculateAQI\<close> and the \<open>||\<close> defaults read it: every
  pollutant property may be missing, and the upstream may send an index of its own.
\<close>

record raw_measurement =
  raw_pm25 :: "real option"
  raw_pm10 :: "real option"
  raw_no2 :: "real option"
  raw_o3 :: "real option"
  raw_so2 :: "real option"
  raw_co :: "real option"
  raw_aqi :: "real option"

section \<open>The index calculation and the severity bands\<close>

text \<open>\<open>Math.round\<close>: the nearest integer, a half rounded towards plus infinity.\<close>

definition Math_round :: "real \<Rightarrow> real" where
  "Math_round x = of_int \<lfloor>x + 1 / 2\<rfloor>"

text \<open>A number is truthy when it is present and not zero.\<close>

definition truthy :: "real option \<Rightarrow> bool" where
  "truthy v = (case v of None \<Rightarrow> False | Some x \<Rightarrow> x \<noteq> 0)"

text \<open>\<open>v || 0\<close> on an optional number.\<close>

definition or_zero :: "real option \<Rightarrow> real" where
  "or_zero v = (if truthy v then the v else 0)"

text \<open>
  Binary64 arithmetic. A division or a multiplication of the source returns the binary64
  number nearest to the exact result, a tie going to the even significand. \<open>ulp x\<close> is the
  distance between neighbouring binary64 numbers around \<open>x\<close>: 52 binary places below the
  leading bit of \<open>x\<close>, and never below \<open>2 powr (- 1074)\<close>, the step of the subnormal
  numbers. \<open>double x\<close> is the multiple of \<open>ulp x\<close> nearest to \<open>x\<close>. There is no overflow to
  infinity: a result beyond the largest binary64 number stays finite here. In
  \<open>calculateAQI\<close> only the multiplication by 100 can overflow, and its result is capped at
  300 in either reading.
\<close>

definition round_even :: "real \<Rightarrow> int" where
  "round_even y =
     (if y - of_int \<lfloor>y\<rfloor> < 1 / 2 then \<lfloor>y\<rfloor>
      else if 1 / 2 < y - of_int \<lfloor>y\<rfloor> then \<lfloor>y\<rfloor> + 1
      else if even \<lfloor>y\<rfloor> then \<lfloor>y\<rfloor> else \<lfloor>y\<rfloor> + 1)"

definition ulp :: "real \<Rightarrow> real" where
  "ulp x = 2 powr (of_int (max \<lfloor>log 2 \<bar>x\<bar>\<rfloor> (- 1022)) - 52)"

definition double :: "real \<Rightarrow> real" where
  "double x = (if x = 0 then 0 else ulp x * of_int (round_even (x / ulp x)))"

text \<open>
  The three sub-indices of \<open>calculateAQI\<close>: \<open>pm25 ? Math.min((pm25 / 35.4) * 100, 300) : 0\<close>
  and its two siblings. The literal \<open>35.4\<close> denotes the binary64 number nearest to it; 154,
  100 and 300 are binary64 numbers themselves. \<open>Math.min\<close>, \<open>Math.max\<close> and \<open>Math.round\<close> are
  exact.
\<close>

definition pm25AQI :: "raw_measurement \<Rightarrow> real" where
  "pm25AQI m =
     (if truthy (raw_pm25 m)
      then min (double (double (the (raw_pm25 m) / double (354 / 10)) * 100)) 300 else 0)"

definition pm10AQI :: "raw_measurement \<Rightarrow> real" where
  "pm10AQI m =
     (if truthy (raw_pm10 m) then min (double (double (the (raw_pm10 m) / 154) * 100)) 300 else 0)"

definition no2AQI :: "raw_measurement \<Rightarrow> real" where
  "no2AQI m =
     (if truthy (raw_no2 m) then min (double (double (the (raw_no2 m) / 100) * 100)) 300 else 0)"

definition calculateAQI :: "raw_measurement \<Rightarrow> real" where
  "calculateAQI m = Math_round (max (pm25AQI m) (max (pm10AQI m) (no2AQI m)))"

text \<open>A \<open>PollutantReading\<close> (\<open>AirQualityMeasurement\<close>) handed to \<open>calculateAQI\<close>: all six
  concentrations are present, and there is no index property.\<close>

definition reading :: "AirQualityMeasurement \<Rightarrow> raw_measurement" where
  "reading m = \<lparr>raw_pm25 = Some (pm25 m), raw_pm10 = Some (pm10 m), raw_no2 = Some (no2 m),
                 raw_o3 = Some (o3 m), raw_so2 = Some (so2 m), raw_co = Some (co m),
                 raw_aqi = None\<rparr>"

text \<open>The letters of the labels outside ASCII, as the UTF-8 bytes of the source file.\<close>

definition a_breve :: string where
  "a_breve = [CHR 0xC4, CHR 0x83]"

definition t_comma :: string where
  "t_comma = [CHR 0xC8, CHR 0x9B]"

definition i_circumflex :: string where
  "i_circumflex = [CHR 0xC3, CHR 0xAE]"

text \<open>\<open>DataService.getAQILevel\<close> and \<open>DataService.getAQIColor\<close>.\<close>

definition getAQILevel :: "real \<Rightarrow> string" where
  "getAQILevel v =
     (if v \<le> 50 then ''Bun'' @ a_breve
      else if v \<le> 100 then ''Moderat'' @ a_breve
      else if v \<le> 150 then
        ''Nes'' @ a_breve @ ''n'' @ a_breve @ ''toas'' @ a_breve @ '' pentru grupuri sensibile''
      else if v \<le> 200 then ''Nes'' @ a_breve @ ''n'' @ a_breve @ ''toas'' @ a_breve
      else ''Foarte nes'' @ a_breve @ ''n'' @ a_breve @ ''toas'' @ a_breve)"

definition getAQIColor :: "real \<Rightarrow> string" where
  "getAQIColor v =
     (if v \<le> 50 then ''#4ade80''
      else if v \<le> 100 then ''#facc15''
      else if v \<le> 150 then ''#fb923c''
      else if v \<le> 200 then ''#ef4444''
      else ''#991b1b'')"

text \<open>The two closures of the same names inside the \<open>AQIGauge\<close> component.\<close>

definition AQIGauge_getAQIColor :: "real \<Rightarrow> string" where
  "AQIGauge_getAQIColor v =
     (if v \<le> 50 then ''#4ade80''
      else if v \<le> 100 then ''#facc15''
      else if v \<le> 150 then ''#fb923c''
      else if v \<le> 200 then ''#ef4444''
      else ''#991b1b'')"

definition AQIGauge_getAQILevel :: "real \<Rightarrow> string" where
  "AQIGauge_getAQILevel v =
     (if v \<le> 50 then ''Bun'' @ a_breve
      else if v \<le> 100 then ''Moderat'' @ a_breve
      else if v \<le> 150 then
        ''Nes'' @ a_breve @ ''n'' @ a_breve @ ''toas'' @ a_breve @ '' pentru grupuri sensibile''
      else if v \<le> 200 then ''Nes'' @ a_breve @ ''n'' @ a_breve @ ''toas'' @ a_breve
      else ''Foarte nes'' @ a_breve @ ''n'' @ a_breve @ ''toas'' @ a_breve)"

section \<open>Summary statistics\<close>

text \<open>\<open>DataService.calculateAverageAQI\<close>; \<open>reduce\<close> is a left fold from 0.\<close>

definition calculateAverageAQI :: "AirQualityData list \<Rightarrow> real" where
  "calculateAverageAQI airQualityData =
     (if length airQualityData = 0 then 0
      else foldl (\<lambda>acc s. acc + aqi s) 0 airQualityData / real (length airQualityData))"

text \<open>The dashboard's \<open>averageAQI\<close> and \<open>alerts\<close>, computed on every render.\<close>

definition averageAQI :: "AirQualityStation list \<Rightarrow> real" where
  "averageAQI airQualityData =
     (if length airQualityData > 0
      then foldl (\<lambda>sum s. sum + as_aqi s) 0 airQualityData / real (length airQualityData)
      else 0)"

definition advisory :: string where
  "advisory = ''Calitatea aerului este nes'' @ a_breve @ ''n'' @ a_breve @ ''toas'' @ a_breve
     @ '' pentru grupuri sensibile. Se recomand'' @ a_breve @ '' limitarea activit'' @ a_breve
     @ t_comma @ ''ilor '' @ i_circumflex @ ''n exterior.''"

definition alerts :: "real \<Rightarrow> string list" where
  "alerts avg = (if avg > 100 then [] @ [advisory] else [])"

section \<open>The upstream providers, the clock and the random source\<close>

text \<open>
  Every \<open>this.api.get\<close> either rejects (network error, authentication, the axios timeout, or
  a body on which the handler throws) or resolves with a body of the shape the handler reads.
  The world answers the \<open>n\<close>-th request of a run by looking at \<open>n\<close> and at the request, so two
  requests to the same endpoint may have different outcomes. \<open>Math.random\<close> is a stream of
  draws, and \<open>new Date()\<close> is one instant for the whole run: \<open>now\<close>, whose local hour
  (\<open>getHours()\<close>) is \<open>hour\<close>.

  The built-in functions whose result depends on the time zone of the host or on the
  Unicode tables are parameters of the world: \<open>isoDate t\<close> is the date that
  \<open>toISOString().split('T')[0]\<close> prints for the instant \<open>t\<close>; \<open>daysBefore t k\<close> is the instant
  that \<open>setDate(getDate() - k)\<close> makes of \<open>t\<close> on the local calendar; \<open>hoursAfter t k\<close> is
  the instant that \<open>setHours(getHours() + k)\<close> makes of \<open>t\<close>; \<open>toLowerCase\<close> and \<open>parseFloat\<close>
  are the functions of those names.
\<close>

datatype error = ApiError

datatype request =
    GetStations
  | GetCurrent int
  | GetHistorical int isodate isodate
  | GetCurrentWeather
  | GetHourlyForecast

record raw_station =
  raw_id :: int
  raw_name :: string
  latitude :: string
  longitude :: string
  raw_county :: string
  raw_city :: "string option"

record raw_history =
  item_date :: isodate
  item :: raw_measurement

record raw_weather =
  raw_temperature :: real
  raw_humidity :: real
  raw_windSpeed :: real
  raw_pressure :: real
  raw_uvIndex :: "real option"

record raw_hour =
  raw_time :: timestamp
  hour_values :: raw_weather

record world =
  stations_api :: "nat \<Rightarrow> error + raw_station list"
  current_api :: "nat \<Rightarrow> int \<Rightarrow> error + raw_measurement"
  historical_api :: "nat \<Rightarrow> int \<Rightarrow> isodate \<Rightarrow> isodate \<Rightarrow> error + raw_history list"
  weather_api :: "nat \<Rightarrow> error + raw_weather"
  forecast_api :: "nat \<Rightarrow> error + raw_hour list"
  random :: "nat \<Rightarrow> real"
  now :: timestamp
  hour :: int
  isoDate :: "timestamp \<Rightarrow> isodate"
  daysBefore :: "timestamp \<Rightarrow> int \<Rightarrow> timestamp"
  hoursAfter :: "timestamp \<Rightarrow> int \<Rightarrow> timestamp"
  toLowerCase :: "string \<Rightarrow> string"
  parseFloat :: "string \<Rightarrow> real"

text \<open>The effects of a run so far: the requests issued, oldest first, and the number of
  random draws consumed.\<close>

record state =
  requests :: "request list"
  draws :: nat

definition issue :: "request \<Rightarrow> state \<Rightarrow> state" where
  "issue r s = s\<lparr>requests := requests s @ [r]\<rparr>"

definition drawn :: "nat \<Rightarrow> state \<Rightarrow> state" where
  "drawn n s = s\<lparr>draws := draws s + n\<rparr>"

text \<open>The \<open>k\<close>-th draw after those already consumed.\<close>

definition rnd :: "world \<Rightarrow> state \<Rightarrow> nat \<Rightarrow> real" where
  "rnd w s k = random w (draws s + k)"

definition Math_floor :: "real \<Rightarrow> real" where
  "Math_floor x = of_int \<lfloor>x\<rfloor>"

section \<open>CalitateAerService\<close>

text \<open>\<open>String.prototype.includes\<close>, as the station filter uses it: the search for a
  substring, here on the bytes of the UTF-8 encoding.\<close>

fun includes_str :: "string \<Rightarrow> string \<Rightarrow> bool" where
  "includes_str [] sub = (sub = [])"
| "includes_str (c # cs) sub = (take (length sub) (c # cs) = sub \<or> includes_str cs sub)"

definition isBucharest :: "world \<Rightarrow> raw_station \<Rightarrow> bool" where
  "isBucharest w st =
     (raw_county st = ''BUCURESTI''
      \<or> (case raw_city st of
            None \<Rightarrow> False
          | Some c \<Rightarrow> includes_str (toLowerCase w c) ''bucuresti'')
      \<or> includes_str (toLowerCase w (raw_name st)) ''bucuresti'')"

definition getMockStations :: "Station list" where
  "getMockStations =
     [\<lparr>st_id = 1, st_name = ''Calea Plevnei'', st_lat = 444378 / 10000, st_lon = 260875 / 10000,
       st_county = ''BUCURESTI'', st_city = None\<rparr>,
      \<lparr>st_id = 2, st_name = ''Drumul Taberei'', st_lat = 444247 / 10000, st_lon = 260301 / 10000,
       st_county = ''BUCURESTI'', st_city = None\<rparr>,
      \<lparr>st_id = 3, st_name = ''Berceni'', st_lat = 443876 / 10000, st_lon = 261186 / 10000,
       st_county = ''BUCURESTI'', st_city = None\<rparr>,
      \<lparr>st_id = 4, st_name = ''Titan'', st_lat = 444334 / 10000, st_lon = 261496 / 10000,
       st_county = ''BUCURESTI'', st_city = None\<rparr>,
      \<lparr>st_id = 5, st_name = ''Ambasada'', st_lat = 444601 / 10000, st_lon = 260844 / 10000,
       st_county = ''BUCURESTI'', st_city = None\<rparr>]"

text \<open>\<open>getStations\<close>: one request; a rejection is caught and answered with the mock stations.\<close>

definition getStations :: "world \<Rightarrow> state \<Rightarrow> (error + Station list) \<times> state" where
  "getStations w s =
     (case stations_api w (length (requests s)) of
        Inr stations \<Rightarrow>
          (Inr (map (\<lambda>st. \<lparr>st_id = raw_id st, st_name = raw_name st,
                            st_lat = parseFloat w (latitude st),
                            st_lon = parseFloat w (longitude st),
                            st_county = raw_county st, st_city = raw_city st\<rparr>)
                    (filter (isBucharest w) stations)),
           issue GetStations s)
      | Inl e \<Rightarrow> (Inr getMockStations, issue GetStations s))"

text \<open>
  \<open>getMockAirQuality\<close>: seven draws for each mock station, in the order of the object literal
  (the six concentrations, then the index).
\<close>

definition mockSample :: "world \<Rightarrow> state \<Rightarrow> nat \<Rightarrow> Station \<Rightarrow> AirQualityData" where
  "mockSample w s i st =
     \<lparr>stationId = st_id st, stationName = st_name st, timestamp = now w,
      measurements =
        \<lparr>pm25 = Math_floor (rnd w s (7 * i) * 50) + 10,
         pm10 = Math_floor (rnd w s (7 * i + 1) * 80) + 20,
         no2 = Math_floor (rnd w s (7 * i + 2) * 60) + 15,
         o3 = Math_floor (rnd w s (7 * i + 3) * 120) + 30,
         so2 = Math_floor (rnd w s (7 * i + 4) * 30) + 5,
         co = Math_floor (rnd w s (7 * i + 5) * 10) + 2\<rparr>,
      aqi = Math_floor (rnd w s (7 * i + 6) * 150) + 25\<rparr>"

definition getMockAirQuality :: "world \<Rightarrow> state \<Rightarrow> AirQualityData list \<times> state" where
  "getMockAirQuality w s =
     (map (\<lambda>(i, st). mockSample w s i st) (enumerate 0 getMockStations),
      drawn (7 * length getMockStations) s)"

text \<open>
  The object that the callback of \<open>getCurrentAirQuality\<close> builds from a resolved body: the
  concentrations default to 0, and the index is \<open>calculateAQI\<close> of the body.
\<close>

definition liveSample :: "world \<Rightarrow> Station list \<Rightarrow> int \<Rightarrow> raw_measurement \<Rightarrow> AirQualityData" where
  "liveSample w sts sid data =
     \<lparr>stationId = sid,
      stationName =
        (case find (\<lambda>st. st_id st = sid) sts of
           None \<Rightarrow> ''Unknown''
         | Some st \<Rightarrow> if st_name st = [] then ''Unknown'' else st_name st),
      timestamp = now w,
      measurements =
        \<lparr>pm25 = or_zero (raw_pm25 data), pm10 = or_zero (raw_pm10 data),
         no2 = or_zero (raw_no2 data), o3 = or_zero (raw_o3 data),
         so2 = or_zero (raw_so2 data), co = or_zero (raw_co data)\<rparr>,
      aqi = calculateAQI data\<rparr>"

text \<open>
  The callback that \<open>getCurrentAirQuality\<close> maps over the station ids: one request; a
  rejection is caught and gives \<open>null\<close>.
\<close>

definition fetchCurrent ::
  "world \<Rightarrow> Station list \<Rightarrow> int \<Rightarrow> state \<Rightarrow> AirQualityData option \<times> state" where
  "fetchCurrent w sts sid s =
     (case current_api w (length (requests s)) sid of
        Inr data \<Rightarrow> (Some (liveSample w sts sid data), issue (GetCurrent sid) s)
      | Inl e \<Rightarrow> (None, issue (GetCurrent sid) s))"

text \<open>\<open>stationIds.map(async ...)\<close> followed by \<open>Promise.all\<close>: the requests go out in the
  order of the ids, and the results keep that order.\<close>

fun fetchAll ::
  "world \<Rightarrow> Station list \<Rightarrow> int list \<Rightarrow> state \<Rightarrow> AirQualityData option list \<times> state" where
  "fetchAll w sts [] s = ([], s)"
| "fetchAll w sts (sid # sids) s =
     (case fetchCurrent w sts sid s of
        (r, s1) \<Rightarrow> (case fetchAll w sts sids s1 of (rs, s2) \<Rightarrow> (r # rs, s2)))"

text \<open>
  \<open>getCurrentAirQuality\<close>. The outer handler, which answers with \<open>getMockAirQuality\<close>, is
  entered only when \<open>getStations\<close> throws; the \<open>null\<close> results are filtered out.
\<close>

definition getCurrentAirQuality :: "world \<Rightarrow> state \<Rightarrow> (error + AirQualityData list) \<times> state" where
  "getCurrentAirQuality w s =
     (case getStations w s of
        (Inr sts, s1) \<Rightarrow>
          (case fetchAll w sts (map st_id sts) s1 of
             (results, s2) \<Rightarrow> (Inr (map the (filter (\<lambda>r. r \<noteq> None) results)), s2))
      | (Inl e, s1) \<Rightarrow>
          (case getMockAirQuality w s1 of (mock, s2) \<Rightarrow> (Inr mock, s2)))"

text \<open>\<open>getMockHistoricalData\<close>: thirty days ending today, three draws for each.\<close>

definition mockDay :: "world \<Rightarrow> state \<Rightarrow> nat \<Rightarrow> HistoricalDataPoint" where
  "mockDay w s i =
     \<lparr>date = isoDate w (daysBefore w (now w) (29 - int i)),
      hp_aqi = 50 + sin (real i * (2 / 10)) * 30 + rnd w s (3 * i) * 20,
      hp_pm25 = 20 + sin (real i * (3 / 10)) * 15 + rnd w s (3 * i + 1) * 10,
      hp_pm10 = 35 + sin (real i * (25 / 100)) * 20 + rnd w s (3 * i + 2) * 15,
      hp_temperature = None\<rparr>"

definition getMockHistoricalData :: "world \<Rightarrow> state \<Rightarrow> HistoricalDataPoint list \<times> state" where
  "getMockHistoricalData w s = (map (mockDay w s) [0..<30], drawn (3 * 30) s)"

text \<open>\<open>getHistoricalAirQuality\<close>: one request, whose body is mapped item by item to
  \<open>historyPoint\<close>; a rejection is caught and answered with the mock history.\<close>

definition historyPoint :: "raw_history \<Rightarrow> HistoricalDataPoint" where
  "historyPoint it =
     \<lparr>date = item_date it, hp_aqi = calculateAQI (item it),
      hp_pm25 = or_zero (raw_pm25 (item it)), hp_pm10 = or_zero (raw_pm10 (item it)),
      hp_temperature = None\<rparr>"

definition getHistoricalAirQuality ::
  "world \<Rightarrow> int \<Rightarrow> timestamp \<Rightarrow> timestamp \<Rightarrow> state
     \<Rightarrow> (error + HistoricalDataPoint list) \<times> state" where
  "getHistoricalAirQuality w sid startDate endDate s =
     (case historical_api w (length (requests s)) sid (isoDate w startDate) (isoDate w endDate) of
        Inr items \<Rightarrow>
          (Inr (map historyPoint items),
           issue (GetHistorical sid (isoDate w startDate) (isoDate w endDate)) s)
      | Inl e \<Rightarrow>
          (case getMockHistoricalData w
                  (issue (GetHistorical sid (isoDate w startDate) (isoDate w endDate)) s) of
             (mock, s1) \<Rightarrow> (Inr mock, s1)))"

section \<open>CopernicusService\<close>

text \<open>The diurnal curve shared by the mock temperature and the mock UV index.\<close>

definition diurnal :: "real \<Rightarrow> real" where
  "diurnal h = sin ((h - 6) * pi / 12) * 8"

definition getMockWeatherData :: "world \<Rightarrow> state \<Rightarrow> WeatherData \<times> state" where
  "getMockWeatherData w s =
     (\<lparr>wd_timestamp = now w,
       temperature = 18 + diurnal (of_int (hour w)) + rnd w s 0 * 2,
       humidity = 45 + rnd w s 1 * 30,
       windSpeed = 5 + rnd w s 2 * 10,
       pressure = 1010 + rnd w s 3 * 20,
       uvIndex = max 0 (diurnal (of_int (hour w)))\<rparr>,
      drawn 4 s)"

text \<open>\<open>getCurrentWeather\<close>: \<open>data.uvIndex || Math.random() * 8\<close> draws only when the
  upstream value is missing or zero.\<close>

definition getCurrentWeather :: "world \<Rightarrow> state \<Rightarrow> (error + WeatherData) \<times> state" where
  "getCurrentWeather w s =
     (case weather_api w (length (requests s)) of
        Inr data \<Rightarrow>
          (Inr \<lparr>wd_timestamp = now w, temperature = raw_temperature data,
                humidity = raw_humidity data, windSpeed = raw_windSpeed data,
                pressure = raw_pressure data,
                uvIndex = (if truthy (raw_uvIndex data) then the (raw_uvIndex data)
                           else rnd w (issue GetCurrentWeather s) 0 * 8)\<rparr>,
           if truthy (raw_uvIndex data) then issue GetCurrentWeather s
           else drawn 1 (issue GetCurrentWeather s))
      | Inl e \<Rightarrow>
          (case getMockWeatherData w (issue GetCurrentWeather s) of
             (mock, s1) \<Rightarrow> (Inr mock, s1)))"

definition mockHour :: "world \<Rightarrow> state \<Rightarrow> nat \<Rightarrow> WeatherData" where
  "mockHour w s i =
     \<lparr>wd_timestamp = hoursAfter w (now w) (int i),
      temperature = 18 + diurnal (real i) + rnd w s (4 * i) * 2,
      humidity = 45 + rnd w s (4 * i + 1) * 30,
      windSpeed = 5 + rnd w s (4 * i + 2) * 10,
      pressure = 1010 + rnd w s (4 * i + 3) * 20,
      uvIndex = max 0 (diurnal (real i))\<rparr>"

definition getMockHourlyData :: "world \<Rightarrow> state \<Rightarrow> WeatherData list \<times> state" where
  "getMockHourlyData w s = (map (mockHour w s) [0..<24], drawn (4 * 24) s)"

definition getHourlyForecast :: "world \<Rightarrow> state \<Rightarrow> (error + WeatherData list) \<times> state" where
  "getHourlyForecast w s =
     (case forecast_api w (length (requests s)) of
        Inr items \<Rightarrow>
          (Inr (map (\<lambda>it. \<lparr>wd_timestamp = raw_time it,
                            temperature = raw_temperature (hour_values it),
                            humidity = raw_humidity (hour_values it),
                            windSpeed = raw_windSpeed (hour_values it),
                            pressure = raw_pressure (hour_values it),
                            uvIndex = or_zero (raw_uvIndex (hour_values it))\<rparr>) items),
           issue GetHourlyForecast s)
      | Inl e \<Rightarrow>
          (case getMockHourlyData w (issue GetHourlyForecast s) of
             (mock, s1) \<Rightarrow> (Inr mock, s1)))"

section \<open>DataService\<close>

record Weather =
  current :: WeatherData
  hourly :: "WeatherData list"

record DashboardData =
  airQuality :: "AirQualityData list"
  weather :: Weather
  stations :: "Station list"
  historical :: "HistoricalDataPoint list"
  lastUpdated :: timestamp

text \<open>
  \<open>getHistoricalData\<close>: the query window runs from \<open>setDate(getDate() - 30)\<close> of now to
  now. The function fetches the station list itself; \<open>stations[0]\<close> is read only under
  \<open>stations.length > 0\<close>. Either handler answers with the mock history.
\<close>

definition getHistoricalData :: "world \<Rightarrow> state \<Rightarrow> (error + HistoricalDataPoint list) \<times> state" where
  "getHistoricalData w s =
     (case getStations w s of
        (Inr sts, s1) \<Rightarrow>
          (case sts of
             st # rest \<Rightarrow>
               (case getHistoricalAirQuality w (st_id st) (daysBefore w (now w) 30) (now w) s1 of
                  (Inr points, s2) \<Rightarrow> (Inr points, s2)
                | (Inl e, s2) \<Rightarrow>
                    (case getMockHistoricalData w s2 of (mock, s3) \<Rightarrow> (Inr mock, s3)))
           | [] \<Rightarrow> (case getMockHistoricalData w s1 of (mock, s2) \<Rightarrow> (Inr mock, s2)))
      | (Inl e, s1) \<Rightarrow> (case getMockHistoricalData w s1 of (mock, s2) \<Rightarrow> (Inr mock, s2)))"

text \<open>
  \<open>getAllDashboardData\<close>: the five operations of the \<open>Promise.all\<close>, in the order of the
  array; a rejection of any of them is logged and thrown again. The operations run
  concurrently in the source and one after the other here. The outcome of each operation
  depends only on the answers to its own requests and on its own draws, and the world may
  answer every request differently, so each combination of outcomes that an interleaving
  can produce is produced here by some world.
\<close>

definition getAllDashboardData :: "world \<Rightarrow> state \<Rightarrow> (error + DashboardData) \<times> state" where
  "getAllDashboardData w s =
     (case getCurrentAirQuality w s of (r1, s1) \<Rightarrow>
      case getCurrentWeather w s1 of (r2, s2) \<Rightarrow>
      case getHourlyForecast w s2 of (r3, s3) \<Rightarrow>
      case getStations w s3 of (r4, s4) \<Rightarrow>
      case getHistoricalData w s4 of (r5, s5) \<Rightarrow>
        (case r1 of Inl e \<Rightarrow> (Inl e, s5) | Inr airQualityData \<Rightarrow>
        (case r2 of Inl e \<Rightarrow> (Inl e, s5) | Inr currentWeather \<Rightarrow>
        (case r3 of Inl e \<Rightarrow> (Inl e, s5) | Inr hourlyForecast \<Rightarrow>
        (case r4 of Inl e \<Rightarrow> (Inl e, s5) | Inr sts \<Rightarrow>
        (case r5 of Inl e \<Rightarrow> (Inl e, s5) | Inr historicalAirQuality \<Rightarrow>
           (Inr \<lparr>airQuality = airQualityData,
                 weather = \<lparr>current = currentWeather, hourly = hourlyForecast\<rparr>,
                 stations = sts,
                 historical = historicalAirQuality,
                 lastUpdated = now w\<rparr>,
            s5)))))))"

text \<open>A run starts with no request issued and no draw consumed.\<close>

definition start :: state where
  "start = \<lparr>requests = [], draws = 0\<rparr>"

section \<open>Concrete worlds\<close>

text \<open>
  The built-in functions of a host on universal time, for strings of ASCII characters: a
  day has 86400000 milliseconds and an hour 3600000, and only the letters A to Z are folded.
\<close>

definition utcDate :: "timestamp \<Rightarrow> isodate" where
  "utcDate t = t div 86400000"

definition utcDaysBefore :: "timestamp \<Rightarrow> int \<Rightarrow> timestamp" where
  "utcDaysBefore t k = t - k * 86400000"

definition utcHoursAfter :: "timestamp \<Rightarrow> int \<Rightarrow> timestamp" where
  "utcHoursAfter t k = t + k * 3600000"

definition asciiLowerCase :: "string \<Rightarrow> string" where
  "asciiLowerCase str =
     map (\<lambda>c. if 65 \<le> (of_char c :: nat) \<and> (of_char c :: nat) \<le> 90
              then char_of ((of_char c :: nat) + 32) else c) str"

text \<open>Every upstream request is rejected.\<close>

definition allDown :: world where
  "allDown =
     \<lparr>stations_api = (\<lambda>n. Inl ApiError),
      current_api = (\<lambda>n sid. Inl ApiError),
      historical_api = (\<lambda>n sid a b. Inl ApiError),
      weather_api = (\<lambda>n. Inl ApiError),
      forecast_api = (\<lambda>n. Inl ApiError),
      random = (\<lambda>k. 0), now = 0, hour = 0,
      isoDate = utcDate, daysBefore = utcDaysBefore, hoursAfter = utcHoursAfter,
      toLowerCase = asciiLowerCase, parseFloat = (\<lambda>str. 0)\<rparr>"

text \<open>The station endpoint resolves, with no station at all.\<close>

definition noStations :: world where
  "noStations = allDown\<lparr>stations_api := (\<lambda>n. Inr [])\<rparr>"

text \<open>
  Five stations of Bucharest are listed; the measurement request of station 3 is rejected and
  the other four resolve with a fine-particle concentration of 10 and an upstream index of 99.
\<close>

definition listed :: "int \<Rightarrow> string \<Rightarrow> raw_station" where
  "listed i n = \<lparr>raw_id = i, raw_name = n, latitude = ''44.4'', longitude = ''26.1'',
                  raw_county = ''BUCURESTI'', raw_city = None\<rparr>"

definition body10 :: raw_measurement where
  "body10 = \<lparr>raw_pm25 = Some 10, raw_pm10 = None, raw_no2 = None, raw_o3 = None,
              raw_so2 = None, raw_co = None, raw_aqi = Some 99\<rparr>"

definition oneDown :: world where
  "oneDown = allDown
     \<lparr>stations_api := (\<lambda>n. Inr [listed 1 ''A'', listed 2 ''B'', listed 3 ''C'', listed 4 ''D'',
                                 listed 5 ''E'']),
      current_api := (\<lambda>n sid. if sid = 3 then Inl ApiError else Inr body10)\<rparr>"

text \<open>
  The station endpoint answers with an empty list, except to the fifth request of the run
  (number 4), which it answers with the one station 7; the history endpoint answers with one
  item without measurements. In a run of \<open>getAllDashboardData\<close> the requests 0, 3 and 4 are the
  three station requests, in the source as here: no measurement request comes between them,
  because the first list is empty.
\<close>

definition emptyItem :: raw_history where
  "emptyItem =
     \<lparr>item_date = 0,
      item = \<lparr>raw_pm25 = None, raw_pm10 = None, raw_no2 = None, raw_o3 = None, raw_so2 = None,
              raw_co = None, raw_aqi = None\<rparr>\<rparr>"

definition listChanges :: world where
  "listChanges = allDown
     \<lparr>stations_api := (\<lambda>n. if n = 4 then Inr [listed 7 ''G''] else Inr []),
      historical_api := (\<lambda>n sid a b. Inr [emptyItem])\<rparr>"

section \<open>Auxiliary notions for stating the properties\<close>

text \<open>The state in which \<open>getAllDashboardData\<close> starts its last operation,
  \<open>getHistoricalData\<close>.\<close>

definition beforeHistory :: "world \<Rightarrow> state \<Rightarrow> state" where
  "beforeHistory w s =
     snd (getStations w (snd (getHourlyForecast w (snd (getCurrentWeather w
       (snd (getCurrentAirQuality w s)))))))"

text \<open>
  The outcome of the measurement request for the \<open>i\<close>-th station id of a batch that starts
  in state \<open>s\<close>: it is request number \<open>length (requests s) + i\<close> of the run.
\<close>

definition answer :: "world \<Rightarrow> state \<Rightarrow> int list \<Rightarrow> nat \<Rightarrow> error + raw_measurement" where
  "answer w s ids i = current_api w (length (requests s) + i) (ids ! i)"

text \<open>The same world, except that every measurement body carries the index \<open>f n sid\<close> chosen
  by the upstream.\<close>

definition withUpstreamIndex :: "(nat \<Rightarrow> int \<Rightarrow> real option) \<Rightarrow> world \<Rightarrow> world" where
  "withUpstreamIndex f w =
     w\<lparr>current_api :=
         (\<lambda>n sid. map_sum id (\<lambda>data. data\<lparr>raw_aqi := f n sid\<rparr>) (current_api w n sid))\<rparr>"

text \<open>The station list that \<open>getStations\<close> returns in the world \<open>oneDown\<close>.\<close>

definition fiveListed :: "Station list" where
  "fiveListed =
     map (\<lambda>(i, n). \<lparr>st_id = i, st_name = n, st_lat = 0, st_lon = 0,
                      st_county = ''BUCURESTI'', st_city = None\<rparr>)
         [(1, ''A''), (2, ''B''), (3, ''C''), (4, ''D''), (5, ''E'')]"

section \<open>Properties of the binary64 rounding\<close>

lemma round_even_near: "\<bar>of_int (round_even y) - y\<bar> \<le> 1 / 2"
  unfolding round_even_def by (auto simp: abs_le_iff)

lemma round_even_nonneg: "0 \<le> y \<Longrightarrow> 0 \<le> round_even y"
  unfolding round_even_def by (auto simp: zero_le_floor)

lemma ulp_pos: "0 < ulp x"
  by (simp add: ulp_def)

lemma double_nonneg: "0 \<le> x \<Longrightarrow> 0 \<le> double x"
  using ulp_pos [of x] round_even_nonneg [of "x / ulp x"]
  by (simp add: double_def)

text \<open>The step around \<open>x\<close>, when \<open>x\<close> lies between two consecutive powers of 2.\<close>

lemma ulp_between:
  assumes "2 powr of_int e \<le> x" and "x < 2 powr (of_int e + 1)" and "- 1022 \<le> e"
  shows "ulp x = 2 powr (of_int e - 52)"
proof -
  have "0 < 2 powr (of_int e :: real)"
    by simp
  with assms(1) have x: "0 < x"
    by linarith
  from assms(1) x have "of_int e \<le> log 2 x"
    by (simp add: le_log_iff)
  moreover from assms(2) x have "log 2 x < of_int e + 1"
    by (simp add: log_less_iff)
  ultimately have "\<lfloor>log 2 x\<rfloor> = e"
    by (simp add: floor_eq_iff)
  with x assms(3) show ?thesis
    by (simp add: ulp_def)
qed

lemma ulp_normal:
  assumes "1 / 1024 \<le> x"
  shows "ulp x \<le> x / 2 ^ 52"
proof -
  from assms have x: "0 < x"
    by simp
  have "2 powr (- 10) = 1 / (1024::real)"
    by (simp add: powr_minus_divide)
  with assms have "2 powr (- 10) \<le> x"
    by simp
  with x have "- 10 \<le> log 2 x"
    by (simp add: le_log_iff)
  then have "- 10 \<le> \<lfloor>log 2 x\<rfloor>"
    by (simp add: le_floor_iff)
  then have m: "max \<lfloor>log 2 \<bar>x\<bar>\<rfloor> (- 1022) = \<lfloor>log 2 x\<rfloor>"
    using x by simp
  have "of_int \<lfloor>log 2 x\<rfloor> \<le> log 2 x"
    by simp
  then have "2 powr of_int \<lfloor>log 2 x\<rfloor> \<le> 2 powr log 2 x"
    by (simp only: powr_le_cancel_iff)
  with x have p: "2 powr of_int \<lfloor>log 2 x\<rfloor> \<le> x"
    by simp
  have "ulp x = 2 powr of_int \<lfloor>log 2 x\<rfloor> / 2 powr 52"
    by (simp only: ulp_def m powr_diff)
  also have "\<dots> = 2 powr of_int \<lfloor>log 2 x\<rfloor> / 2 ^ 52"
    by simp
  also have "\<dots> \<le> x / 2 ^ 52"
    using p by (simp add: divide_right_mono)
  finally show ?thesis .
qed

text \<open>The relative error of one rounding is at most \<open>2 ^ - 53\<close>.\<close>

lemma double_near:
  assumes "1 / 1024 \<le> x"
  shows "\<bar>double x - x\<bar> \<le> x / 2 ^ 53"
proof -
  from assms have x: "x \<noteq> 0"
    by auto
  let ?u = "ulp x"
  have u: "0 < ?u"
    by (rule ulp_pos)
  have "double x - x = ?u * (of_int (round_even (x / ?u)) - x / ?u)"
    using x u by (simp add: double_def algebra_simps)
  then have "\<bar>double x - x\<bar> = ?u * \<bar>of_int (round_even (x / ?u)) - x / ?u\<bar>"
    using u by (simp add: abs_mult)
  also have "\<dots> \<le> ?u * (1 / 2)"
    using u round_even_near [of "x / ?u"] by (intro mult_left_mono) simp_all
  also have "\<dots> \<le> (x / 2 ^ 52) * (1 / 2)"
    using ulp_normal [OF assms] by simp
  also have "\<dots> = x / 2 ^ 53"
    by simp
  finally show ?thesis .
qed

lemma double_bounds:
  assumes "1 / 1024 \<le> x"
  shows "x * (999999 / 1000000) \<le> double x \<and> double x \<le> x * (1000001 / 1000000)"
proof -
  from assms have x: "0 < x"
    by simp
  have "x / 2 ^ 53 \<le> x / 1000000"
    using x by (intro divide_left_mono) simp_all
  with double_near [OF assms] have "\<bar>double x - x\<bar> \<le> x / 1000000"
    by linarith
  then have "double x - x \<le> x / 1000000" and "x - double x \<le> x / 1000000"
    by linarith+
  then show ?thesis
    by (simp add: field_simps)
qed

text \<open>A quotient rounded, times 100, rounded again: within one part in 100000 of the exact
  value.\<close>

lemma subindex_bounds:
  assumes "1 \<le> x" and "x \<le> 1000" and "1 \<le> c" and "c \<le> 1000"
  shows "x / c * 100 * (99999 / 100000) \<le> double (double (x / c) * 100)
    \<and> double (double (x / c) * 100) \<le> x / c * 100 * (100001 / 100000)"
proof -
  define q where "q = x / c"
  have q: "1 / 1000 \<le> q"
    using assms by (simp add: q_def le_divide_eq)
  then have "1 / 1024 \<le> q"
    by linarith
  from double_bounds [OF this]
  have d1: "q * (999999 / 1000000) \<le> double q" "double q \<le> q * (1000001 / 1000000)"
    by simp_all
  have "1 / 1024 \<le> double q * 100"
    using d1 q by linarith
  from double_bounds [OF this]
  have d2: "double q * 100 * (999999 / 1000000) \<le> double (double q * 100)"
    "double (double q * 100) \<le> double q * 100 * (1000001 / 1000000)"
    by simp_all
  from d1 d2 q have "q * 100 * (99999 / 100000) \<le> double (double q * 100)
    \<and> double (double q * 100) \<le> q * 100 * (100001 / 100000)"
    by (intro conjI) linarith+
  then show ?thesis
    by (simp only: q_def)
qed

text \<open>The same with the divisor \<open>35.4\<close>, itself rounded.\<close>

lemma subindex_bounds_354:
  assumes "1 \<le> x" and "x \<le> 1000"
  shows "x / (354 / 10) * 100 * (9999 / 10000) \<le> double (double (x / double (354 / 10)) * 100)
    \<and> double (double (x / double (354 / 10)) * 100) \<le> x / (354 / 10) * 100 * (10001 / 10000)"
proof -
  define c :: real where "c = double (354 / 10)"
  define r where "r = x / (354 / 10)"
  define q where "q = x / c"
  have "1 / 1024 \<le> (354 / 10 :: real)"
    by simp
  from double_bounds [OF this]
  have c: "354 / 10 * (999999 / 1000000) \<le> c" "c \<le> 354 / 10 * (1000001 / 1000000)"
    by (simp_all add: c_def)
  then have c1: "1 \<le> c" "c \<le> 1000" "0 < c"
    by linarith+
  have x: "0 \<le> x"
    using assms by simp
  have "x / c \<le> x / (354 / 10 * (999999 / 1000000))"
    using c(1) c1(3) x by (intro divide_left_mono) simp_all
  then have q_hi: "q \<le> r * (1000000 / 999999)"
    by (simp add: q_def r_def)
  have "x / (354 / 10 * (1000001 / 1000000)) \<le> x / c"
    using c(2) c1(3) x by (intro divide_left_mono) simp_all
  then have q_lo: "r * (1000000 / 1000001) \<le> q"
    by (simp add: q_def r_def)
  have r: "0 \<le> r"
    using x by (simp add: r_def)
  from subindex_bounds [OF assms c1(1) c1(2)]
  have s: "q * 100 * (99999 / 100000) \<le> double (double q * 100)"
    "double (double q * 100) \<le> q * 100 * (100001 / 100000)"
    by (simp_all add: q_def)
  from s q_hi q_lo r have "r * 100 * (9999 / 10000) \<le> double (double q * 100)
    \<and> double (double q * 100) \<le> r * 100 * (10001 / 10000)"
    by (intro conjI) linarith+
  then show ?thesis
    by (simp only: q_def r_def c_def)
qed

section \<open>Properties of the index calculation\<close>

lemma pm25AQI_reading:
  "pm25AQI (reading m) = min (double (double (pm25 m / double (354 / 10)) * 100)) 300"
  by (simp add: pm25AQI_def reading_def truthy_def double_def)

lemma pm10AQI_reading: "pm10AQI (reading m) = min (double (double (pm10 m / 154) * 100)) 300"
  by (simp add: pm10AQI_def reading_def truthy_def double_def)

lemma no2AQI_reading: "no2AQI (reading m) = min (double (double (no2 m / 100) * 100)) 300"
  by (simp add: no2AQI_def reading_def truthy_def double_def)

lemma Math_round_mono: "x \<le> y \<Longrightarrow> Math_round x \<le> Math_round y"
  by (simp add: Math_round_def floor_mono)

lemma Math_round_0: "Math_round 0 = 0"
  by (simp add: Math_round_def)

lemma Math_round_300: "Math_round 300 = 300"
  by (simp add: Math_round_def)

lemma Math_round_eq:
  "of_int n - 1 / 2 \<le> v \<Longrightarrow> v < of_int n + 1 / 2 \<Longrightarrow> Math_round v = of_int n"
  by (simp add: Math_round_def floor_eq_iff)

lemma Math_round_nonneg: "0 \<le> x \<Longrightarrow> 0 \<le> Math_round x"
  using Math_round_mono [of 0 x] by (simp add: Math_round_0)

text \<open>The first sub-index of the concentration 10 lies between 28 and 28.5.\<close>

lemma pm25AQI_of_10:
  assumes "raw_pm25 b = Some 10"
  shows "28 \<le> pm25AQI b \<and> pm25AQI b \<le> 57 / 2 - 1 / 10"
  using assms subindex_bounds_354 [of 10]
  by (simp add: pm25AQI_def truthy_def)

text \<open>
  Claim C2, as stated, asks the index to be equal to the largest sub-index. The code rounds:
  a fine-particle concentration of 10 alone has the sub-index \<open>1000 / 35.4\<close>, about 28.25,
  and the index is a whole number (it is 28, see \<open>calculateAQI_of_10\<close>).
\<close>

theorem calculateAQI_is_not_the_maximum:
  "calculateAQI (reading \<lparr>pm25 = 10, pm10 = 0, no2 = 0, o3 = 0, so2 = 0, co = 0\<rparr>)
     \<noteq> max (min (10 / (354 / 10) * 100) 300)
           (max (min (0 / 154 * 100) 300) (min (0 / 100 * 100) 300))"
proof
  assume "calculateAQI (reading \<lparr>pm25 = 10, pm10 = 0, no2 = 0, o3 = 0, so2 = 0, co = 0\<rparr>)
     = max (min (10 / (354 / 10) * 100) 300)
           (max (min (0 / 154 * 100) 300) (min (0 / 100 * 100) 300))"
  then obtain k :: int where "of_int k = (5000 / 177 :: real)"
    by (simp add: calculateAQI_def Math_round_def)
  then have "of_int (177 * k) = (of_int 5000 :: real)"
    by simp
  then have "177 * k = 5000"
    by (simp only: of_int_eq_iff)
  then show False
    by presburger
qed

lemma calculateAQI_of_10:
  "calculateAQI (reading \<lparr>pm25 = 10, pm10 = 0, no2 = 0, o3 = 0, so2 = 0, co = 0\<rparr>) = 28"
proof -
  let ?b = "reading \<lparr>pm25 = 10, pm10 = 0, no2 = 0, o3 = 0, so2 = 0, co = 0\<rparr>"
  have "28 \<le> pm25AQI ?b \<and> pm25AQI ?b \<le> 57 / 2 - 1 / 10"
    by (rule pm25AQI_of_10) (simp add: reading_def)
  moreover have "pm10AQI ?b = 0" and "no2AQI ?b = 0"
    by (simp_all add: pm10AQI_def no2AQI_def reading_def truthy_def)
  ultimately have "Math_round (max (pm25AQI ?b) (max (pm10AQI ?b) (no2AQI ?b))) = of_int 28"
    by (intro Math_round_eq) simp_all
  then show ?thesis
    by (simp add: calculateAQI_def)
qed

text \<open>
  Claim C2, amended: for a reading with non-negative concentrations the index lies between 0
  and 300; it is \<open>Math.round\<close> of the largest of the three sub-indices, each computed as the
  source computes it in binary64 arithmetic (the concentration divided by 35.4, 154 or 100,
  the quotient rounded, times 100, the product rounded, capped at 300); and it is 0 when the
  three concentrations are 0. Being a function of the reading, it is deterministic.
\<close>

theorem calculateAQI_rounded_maximum:
  assumes "0 \<le> pm25 m" and "0 \<le> pm10 m" and "0 \<le> no2 m"
  shows "0 \<le> calculateAQI (reading m) \<and> calculateAQI (reading m) \<le> 300
    \<and> calculateAQI (reading m) =
        Math_round (max (min (double (double (pm25 m / double (354 / 10)) * 100)) 300)
                     (max (min (double (double (pm10 m / 154) * 100)) 300)
                          (min (double (double (no2 m / 100) * 100)) 300)))
    \<and> (pm25 m = 0 \<and> pm10 m = 0 \<and> no2 m = 0 \<longrightarrow> calculateAQI (reading m) = 0)"
proof -
  let ?mx = "max (pm25AQI (reading m)) (max (pm10AQI (reading m)) (no2AQI (reading m)))"
  have "0 \<le> double (354 / 10)"
    by (rule double_nonneg) simp
  with assms(1) have "0 \<le> double (double (pm25 m / double (354 / 10)) * 100)"
    by (intro double_nonneg mult_nonneg_nonneg divide_nonneg_nonneg) simp_all
  then have lo: "0 \<le> ?mx"
    by (simp add: pm25AQI_reading le_max_iff_disj)
  have hi: "?mx \<le> 300"
    by (simp add: pm25AQI_reading pm10AQI_reading no2AQI_reading)
  have "Math_round 0 \<le> Math_round ?mx"
    using lo by (rule Math_round_mono)
  moreover have "Math_round ?mx \<le> Math_round 300"
    using hi by (rule Math_round_mono)
  moreover have "calculateAQI (reading m) = Math_round ?mx"
    by (simp add: calculateAQI_def)
  ultimately have bounds: "0 \<le> calculateAQI (reading m) \<and> calculateAQI (reading m) \<le> 300"
    by (simp only: Math_round_0 Math_round_300)
  have rounded: "calculateAQI (reading m) =
        Math_round (max (min (double (double (pm25 m / double (354 / 10)) * 100)) 300)
                     (max (min (double (double (pm10 m / 154) * 100)) 300)
                          (min (double (double (no2 m / 100) * 100)) 300)))"
    by (simp only: calculateAQI_def pm25AQI_reading pm10AQI_reading no2AQI_reading)
  have zero: "pm25 m = 0 \<and> pm10 m = 0 \<and> no2 m = 0 \<Longrightarrow> calculateAQI (reading m) = 0"
    by (simp add: rounded Math_round_def double_def)
  from bounds rounded zero show ?thesis
    by blast
qed

lemma calculateAQI_of_10_77_40:
  "calculateAQI (reading \<lparr>pm25 = 10, pm10 = 77, no2 = 40, o3 = 40, so2 = 3, co = 1\<rparr>) = 50"
proof -
  let ?b = "reading \<lparr>pm25 = 10, pm10 = 77, no2 = 40, o3 = 40, so2 = 3, co = 1\<rparr>"
  have a: "28 \<le> pm25AQI ?b \<and> pm25AQI ?b \<le> 57 / 2 - 1 / 10"
    by (rule pm25AQI_of_10) (simp add: reading_def)
  have b: "50 - 1 / 10 \<le> pm10AQI ?b \<and> pm10AQI ?b \<le> 50 + 1 / 10"
    using subindex_bounds [of 77 154] by (simp add: pm10AQI_reading)
  have c: "40 - 1 / 10 \<le> no2AQI ?b \<and> no2AQI ?b \<le> 40 + 1 / 10"
    using subindex_bounds [of 40 100] by (simp add: no2AQI_reading)
  from a b c have "Math_round (max (pm25AQI ?b) (max (pm10AQI ?b) (no2AQI ?b))) = of_int 50"
    by (intro Math_round_eq) simp_all
  then show ?thesis
    by (simp add: calculateAQI_def)
qed

theorem calculateAQI_rounded_maximum_witness:
  "calculateAQI (reading \<lparr>pm25 = 0, pm10 = 0, no2 = 0, o3 = 40, so2 = 3, co = 1\<rparr>) = 0
   \<and> calculateAQI (reading \<lparr>pm25 = 10, pm10 = 77, no2 = 40, o3 = 40, so2 = 3, co = 1\<rparr>) = 50"
  using calculateAQI_rounded_maximum
          [of "\<lparr>pm25 = 0, pm10 = 0, no2 = 0, o3 = 40, so2 = 3, co = 1\<rparr>"]
        calculateAQI_rounded_maximum
          [of "\<lparr>pm25 = 10, pm10 = 77, no2 = 40, o3 = 40, so2 = 3, co = 1\<rparr>"]
  by (simp add: calculateAQI_of_10_77_40)

text \<open>
  The roundings matter at ties. For the nitrogen dioxide concentration 14.5 the quotient
  0.145 is not a binary64 number; its nearest neighbour times 100 rounds to a number just
  below 14.5, and the index is 14, where exact arithmetic would give 15.
\<close>

lemma double_between:
  assumes "2 powr of_int e \<le> x" and "x < 2 powr (of_int e + 1)" and "- 1022 \<le> e"
  shows "double x = 2 powr (of_int e - 52) * of_int (round_even (x / 2 powr (of_int e - 52)))"
proof -
  have "0 < 2 powr (of_int e :: real)"
    by simp
  with assms(1) have "x \<noteq> 0"
    by linarith
  then show ?thesis
    by (simp add: double_def ulp_between [OF assms])
qed

lemma double_145: "double (29 / 200) = 5224175567749775 / 2 ^ 55"
proof -
  have "double (29 / 200) =
      2 powr (of_int (- 3) - 52) * of_int (round_even (29 / 200 / 2 powr (of_int (- 3) - 52)))"
    by (rule double_between) (simp_all add: powr_minus_divide)
  also have "2 powr (of_int (- 3) - 52) = (1 / 2 ^ 55 :: real)"
    by (simp add: powr_minus_divide)
  also have "round_even (29 / 200 / (1 / 2 ^ 55)) = 5224175567749775"
    by (simp add: round_even_def)
  finally show ?thesis
    by simp
qed

lemma double_145_100: "double (5224175567749775 / 2 ^ 55 * 100) = 8162774324609023 / 2 ^ 49"
proof -
  have "double (5224175567749775 / 2 ^ 55 * 100) =
      2 powr (of_int 3 - 52)
        * of_int (round_even (5224175567749775 / 2 ^ 55 * 100 / 2 powr (of_int 3 - 52)))"
    by (rule double_between) simp_all
  also have "2 powr (of_int 3 - 52) = (1 / 2 ^ 49 :: real)"
    by (simp add: powr_minus_divide)
  also have "round_even (5224175567749775 / 2 ^ 55 * 100 / (1 / 2 ^ 49)) = 8162774324609023"
    by (simp add: round_even_def)
  finally show ?thesis
    by simp
qed

lemma calculateAQI_at_a_tie:
  "calculateAQI (reading \<lparr>pm25 = 0, pm10 = 0, no2 = 29 / 2, o3 = 0, so2 = 0, co = 0\<rparr>) = 14"
proof -
  let ?b = "reading \<lparr>pm25 = 0, pm10 = 0, no2 = 29 / 2, o3 = 0, so2 = 0, co = 0\<rparr>"
  have "no2AQI ?b = min (double (double (29 / 2 / 100) * 100)) 300"
    by (simp only: no2AQI_reading AirQualityMeasurement.simps)
  also have "(29 / 2 / 100 :: real) = 29 / 200"
    by simp
  also have "double (29 / 200) = 5224175567749775 / 2 ^ 55"
    by (rule double_145)
  also have "double (5224175567749775 / 2 ^ 55 * 100) = 8162774324609023 / 2 ^ 49"
    by (rule double_145_100)
  finally have c: "no2AQI ?b = min (8162774324609023 / 2 ^ 49) 300" .
  have a: "pm25AQI ?b = 0" and b: "pm10AQI ?b = 0"
    by (simp_all add: pm25AQI_def pm10AQI_def reading_def truthy_def)
  have "calculateAQI ?b = Math_round (max 0 (max 0 (min (8162774324609023 / 2 ^ 49) 300)))"
    by (simp only: calculateAQI_def a b c)
  also have "\<dots> = 14"
    by (simp add: Math_round_def)
  finally show ?thesis .
qed

lemma calculateAQI_cong:
  "raw_pm25 a = raw_pm25 b \<Longrightarrow> raw_pm10 a = raw_pm10 b \<Longrightarrow> raw_no2 a = raw_no2 b
   \<Longrightarrow> calculateAQI a = calculateAQI b"
  by (simp add: calculateAQI_def pm25AQI_def pm10AQI_def no2AQI_def)

text \<open>
  Claim C9: two readings that agree on \<open>pm25\<close>, \<open>pm10\<close> and \<open>no2\<close> have the same index,
  whatever their \<open>o3\<close>, \<open>so2\<close> and \<open>co\<close>.
\<close>

theorem calculateAQI_ignores_o3_so2_co:
  assumes "pm25 a = pm25 b" and "pm10 a = pm10 b" and "no2 a = no2 b"
  shows "calculateAQI (reading a) = calculateAQI (reading b)"
  using assms by (intro calculateAQI_cong) (simp_all add: reading_def)

theorem calculateAQI_ignores_o3_so2_co_witness:
  "calculateAQI (reading \<lparr>pm25 = 12, pm10 = 40, no2 = 30, o3 = 0, so2 = 0, co = 0\<rparr>)
     = calculateAQI (reading \<lparr>pm25 = 12, pm10 = 40, no2 = 30, o3 = 180, so2 = 75, co = 9\<rparr>)"
  using calculateAQI_ignores_o3_so2_co
          [of "\<lparr>pm25 = 12, pm10 = 40, no2 = 30, o3 = 0, so2 = 0, co = 0\<rparr>"
              "\<lparr>pm25 = 12, pm10 = 40, no2 = 30, o3 = 180, so2 = 75, co = 9\<rparr>"]
  by simp

section \<open>Properties of the severity bands and the summary statistics\<close>

text \<open>
  Claim C10: the closures of \<open>AQIGauge\<close> and the static methods of \<open>DataService\<close> give the
  same label and the same colour for every index value.
\<close>

theorem AQIGauge_agrees_with_DataService:
  "AQIGauge_getAQILevel v = getAQILevel v \<and> AQIGauge_getAQIColor v = getAQIColor v"
  by (simp add: AQIGauge_getAQILevel_def getAQILevel_def AQIGauge_getAQIColor_def
        getAQIColor_def)

lemma foldl_plus_sum_list: "foldl (\<lambda>acc x. acc + f x) a xs = a + sum_list (map f xs)"
  for a :: real
  by (induction xs arbitrary: a) simp_all

text \<open>
  Claim C5: the mean index is the arithmetic mean of the index over all the samples, and 0
  when there is none; the alert list holds exactly the one advisory when the mean exceeds
  100 (as at 120) and is empty otherwise (as at 80).
\<close>

theorem mean_index_and_alerts:
  "calculateAverageAQI xs = (if xs = [] then 0 else sum_list (map aqi xs) / real (length xs))
   \<and> averageAQI ys = (if ys = [] then 0 else sum_list (map as_aqi ys) / real (length ys))
   \<and> alerts avg = (if 100 < avg then [advisory] else [])
   \<and> alerts 120 = [advisory] \<and> alerts 80 = []"
  by (simp add: calculateAverageAQI_def averageAQI_def alerts_def foldl_plus_sum_list)

lemma calculateAQI_of_body10_100: "calculateAQI (body10\<lparr>raw_no2 := Some 100\<rparr>) = 100"
proof -
  let ?b = "body10\<lparr>raw_no2 := Some 100\<rparr>"
  have a: "28 \<le> pm25AQI ?b \<and> pm25AQI ?b \<le> 57 / 2 - 1 / 10"
    by (rule pm25AQI_of_10) (simp add: body10_def)
  have b: "pm10AQI ?b = 0"
    by (simp add: pm10AQI_def body10_def truthy_def)
  have c: "100 - 1 / 10 \<le> no2AQI ?b \<and> no2AQI ?b \<le> 100 + 1 / 10"
    using subindex_bounds [of 100 100] by (simp add: no2AQI_def body10_def truthy_def)
  from a b c have "Math_round (max (pm25AQI ?b) (max (pm10AQI ?b) (no2AQI ?b))) = of_int 100"
    by (intro Math_round_eq) simp_all
  then show ?thesis
    by (simp add: calculateAQI_def)
qed

lemma calculateAQI_of_body10_140: "calculateAQI (body10\<lparr>raw_no2 := Some 140\<rparr>) = 140"
proof -
  let ?b = "body10\<lparr>raw_no2 := Some 140\<rparr>"
  have a: "28 \<le> pm25AQI ?b \<and> pm25AQI ?b \<le> 57 / 2 - 1 / 10"
    by (rule pm25AQI_of_10) (simp add: body10_def)
  have b: "pm10AQI ?b = 0"
    by (simp add: pm10AQI_def body10_def truthy_def)
  have c: "140 - 1 / 10 \<le> no2AQI ?b \<and> no2AQI ?b \<le> 140 + 1 / 10"
    using subindex_bounds [of 140 100] by (simp add: no2AQI_def body10_def truthy_def)
  from a b c have "Math_round (max (pm25AQI ?b) (max (pm10AQI ?b) (no2AQI ?b))) = of_int 140"
    by (intro Math_round_eq) simp_all
  then show ?thesis
    by (simp add: calculateAQI_def)
qed

theorem mean_index_and_alerts_witness:
  "calculateAverageAQI
     [liveSample allDown [] 1 (body10\<lparr>raw_no2 := Some 100\<rparr>),
      liveSample allDown [] 2 (body10\<lparr>raw_no2 := Some 140\<rparr>)] = 120
   \<and> alerts 120 = [advisory] \<and> alerts 80 = []"
  using mean_index_and_alerts
          [of "[liveSample allDown [] 1 (body10\<lparr>raw_no2 := Some 100\<rparr>),
                liveSample allDown [] 2 (body10\<lparr>raw_no2 := Some 140\<rparr>)]" "[]" 120]
  by (simp add: liveSample_def calculateAQI_of_body10_100 calculateAQI_of_body10_140)

section \<open>No operation of the services throws\<close>

lemma getStations_Inr: "\<exists>sts. getStations w s = (Inr sts, issue GetStations s)"
  by (simp add: getStations_def split: sum.splits)

lemma getStations_state: "snd (getStations w s) = issue GetStations s"
  using getStations_Inr [of w s] by auto

lemma fetchCurrent_eq:
  "fetchCurrent w sts sid s =
     (case current_api w (length (requests s)) sid of
        Inr data \<Rightarrow> Some (liveSample w sts sid data) | Inl e \<Rightarrow> None,
      issue (GetCurrent sid) s)"
  by (simp add: fetchCurrent_def split: sum.splits)

lemma fetchAll_length: "length (fst (fetchAll w sts ids s)) = length ids"
  by (induction ids arbitrary: s) (simp_all add: split_def)

lemma fetchAll_nth:
  "i < length ids \<Longrightarrow>
   fst (fetchAll w sts ids s) ! i =
     (case current_api w (length (requests s) + i) (ids ! i) of
        Inr data \<Rightarrow> Some (liveSample w sts (ids ! i) data) | Inl e \<Rightarrow> None)"
proof (induction ids arbitrary: s i)
  case Nil
  then show ?case by simp
next
  case (Cons sid sids)
  show ?case
  proof (cases i)
    case 0
    then show ?thesis
      by (simp add: split_def fetchCurrent_eq split: sum.splits)
  next
    case (Suc j)
    with Cons.prems have "j < length sids"
      by simp
    from Cons.IH [OF this, of "issue (GetCurrent sid) s"] Suc show ?thesis
      by (simp add: split_def fetchCurrent_eq issue_def split: sum.splits)
  qed
qed

lemma fetchAll_map:
  "fst (fetchAll w sts ids s) =
     map (\<lambda>i. case answer w s ids i of
                 Inr data \<Rightarrow> Some (liveSample w sts (ids ! i) data) | Inl e \<Rightarrow> None)
         [0..<length ids]"
  by (rule nth_equalityI)
     (simp_all add: fetchAll_length fetchAll_nth answer_def split: sum.splits)

text \<open>The samples that survive the filter are those of the resolved requests, in order.\<close>

lemma fetchAll_live:
  "map the (filter (\<lambda>r. r \<noteq> None) (fst (fetchAll w sts ids s))) =
     map (\<lambda>i. liveSample w sts (ids ! i) (projr (answer w s ids i)))
         (filter (\<lambda>i. \<not> isl (answer w s ids i)) [0..<length ids])"
proof -
  let ?g = "\<lambda>i. case answer w s ids i of
                 Inr data \<Rightarrow> Some (liveSample w sts (ids ! i) data) | Inl e \<Rightarrow> None"
  let ?P = "\<lambda>i. \<not> isl (answer w s ids i)"
  have p: "(?g i \<noteq> None) = ?P i" for i
    by (simp split: sum.splits)
  have "filter (\<lambda>r. r \<noteq> None) (map ?g [0..<length ids]) = map ?g (filter ?P [0..<length ids])"
    by (simp only: filter_map o_def p)
  moreover have "map the (map ?g (filter ?P [0..<length ids])) =
      map (\<lambda>i. liveSample w sts (ids ! i) (projr (answer w s ids i))) (filter ?P [0..<length ids])"
    by (auto split: sum.splits)
  ultimately show ?thesis
    by (simp only: fetchAll_map)
qed

lemma getCurrentAirQuality_live:
  assumes "fst (getStations w s) = Inr sts"
  shows "fst (getCurrentAirQuality w s) =
     Inr (map (\<lambda>i. liveSample w sts (map st_id sts ! i)
                      (projr (answer w (issue GetStations s) (map st_id sts) i)))
            (filter (\<lambda>i. \<not> isl (answer w (issue GetStations s) (map st_id sts) i))
               [0..<length sts]))"
proof -
  from assms getStations_state [of w s]
  have "getStations w s = (Inr sts, issue GetStations s)"
    by (simp add: prod_eq_iff)
  then show ?thesis
    using fetchAll_live [of w sts "map st_id sts" "issue GetStations s"]
    by (simp add: getCurrentAirQuality_def split_def)
qed

lemma getCurrentAirQuality_Inr: "\<exists>xs. fst (getCurrentAirQuality w s) = Inr xs"
  using getStations_Inr [of w s] getCurrentAirQuality_live [of w s] by auto

lemma getCurrentWeather_Inr: "\<exists>x. fst (getCurrentWeather w s) = Inr x"
  by (simp add: getCurrentWeather_def split_def split: sum.splits)

lemma getHourlyForecast_Inr: "\<exists>x. fst (getHourlyForecast w s) = Inr x"
  by (simp add: getHourlyForecast_def split_def split: sum.splits)

lemma getHistoricalAirQuality_Inr: "\<exists>x. fst (getHistoricalAirQuality w sid a b s) = Inr x"
  by (simp add: getHistoricalAirQuality_def split_def split: sum.splits)

lemma getHistoricalData_Inr: "\<exists>x. fst (getHistoricalData w s) = Inr x"
  by (simp add: getHistoricalData_def split_def split: sum.splits list.splits prod.splits)

text \<open>
  The aggregation returns a result in every world, and each field of the result is what the
  corresponding operation returned.
\<close>

lemma getAllDashboardData_fields:
  "\<exists>d. fst (getAllDashboardData w s) = Inr d
     \<and> fst (getCurrentAirQuality w s) = Inr (airQuality d)
     \<and> fst (getCurrentWeather w (snd (getCurrentAirQuality w s))) = Inr (current (weather d))
     \<and> fst (getHourlyForecast w (snd (getCurrentWeather w (snd (getCurrentAirQuality w s)))))
          = Inr (hourly (weather d))
     \<and> fst (getStations w (snd (getHourlyForecast w (snd (getCurrentWeather w
            (snd (getCurrentAirQuality w s))))))) = Inr (stations d)
     \<and> fst (getHistoricalData w (snd (getStations w (snd (getHourlyForecast w
            (snd (getCurrentWeather w (snd (getCurrentAirQuality w s))))))))) = Inr (historical d)
     \<and> lastUpdated d = now w"
proof -
  obtain a where a: "fst (getCurrentAirQuality w s) = Inr a"
    using getCurrentAirQuality_Inr by blast
  let ?s1 = "snd (getCurrentAirQuality w s)"
  obtain c where c: "fst (getCurrentWeather w ?s1) = Inr c"
    using getCurrentWeather_Inr by blast
  let ?s2 = "snd (getCurrentWeather w ?s1)"
  obtain h where h: "fst (getHourlyForecast w ?s2) = Inr h"
    using getHourlyForecast_Inr by blast
  let ?s3 = "snd (getHourlyForecast w ?s2)"
  obtain sts where sts: "fst (getStations w ?s3) = Inr sts"
    using getStations_Inr [of w ?s3] by auto
  let ?s4 = "snd (getStations w ?s3)"
  obtain p where p: "fst (getHistoricalData w ?s4) = Inr p"
    using getHistoricalData_Inr by blast
  show ?thesis
    by (simp add: getAllDashboardData_def split_def a c h sts p)
qed

lemma getAllDashboardData_never_fails: "\<exists>d. fst (getAllDashboardData w s) = Inr d"
  using getAllDashboardData_fields [of w s] by blast

section \<open>The station batch\<close>

lemma or_zero_truthy: "truthy (Some (or_zero v)) = truthy v"
  by (cases v) (simp_all add: or_zero_def truthy_def)

lemma or_zero_the: "truthy v \<Longrightarrow> or_zero v = the v"
  by (simp add: or_zero_def)

text \<open>The index of a live sample is the index of the reading stored in it.\<close>

lemma liveSample_index:
  "aqi (liveSample w sts sid data) =
     calculateAQI (reading (measurements (liveSample w sts sid data)))"
  by (simp add: liveSample_def calculateAQI_def pm25AQI_def pm10AQI_def no2AQI_def reading_def
        or_zero_truthy or_zero_the)

lemma all_but_one_of_five:
  assumes "k < 5"
  shows "length (filter (\<lambda>i. i \<noteq> k) [0..<5]) = 4"
proof -
  have "[0..<5] = [0, 1, 2, 3, 4::nat]"
    by (simp add: upt_rec)
  moreover from assms have "k = 0 \<or> k = 1 \<or> k = 2 \<or> k = 3 \<or> k = 4"
    by arith
  ultimately show ?thesis
    by auto
qed

lemma oneDown_stations: "fst (getStations oneDown start) = Inr fiveListed"
  by (simp add: getStations_def oneDown_def allDown_def start_def listed_def isBucharest_def
        fiveListed_def)

lemma oneDown_current:
  "current_api oneDown n sid = (if sid = 3 then Inl ApiError else Inr body10)"
  by (simp add: oneDown_def allDown_def)

lemma oneDown_samples:
  "fst (getCurrentAirQuality oneDown start) =
     Inr (map (\<lambda>sid. liveSample oneDown fiveListed sid body10) [1, 2, 4, 5])"
proof -
  have "getStations oneDown start = (Inr fiveListed, issue GetStations start)"
    using oneDown_stations getStations_state [of oneDown start] by (simp add: prod_eq_iff)
  then show ?thesis
    by (simp add: getCurrentAirQuality_def fetchCurrent_eq oneDown_current)
       (simp add: fiveListed_def fetchCurrent_eq oneDown_current)
qed

lemma oneDown_exactly_one_fails:
  "\<forall>i<5. isl (answer oneDown (issue GetStations start) (map st_id fiveListed) i) = (i = 2)"
proof (intro allI impI)
  fix i :: nat
  assume "i < 5"
  then have "i = 0 \<or> i = 1 \<or> i = 2 \<or> i = 3 \<or> i = 4"
    by arith
  then show "isl (answer oneDown (issue GetStations start) (map st_id fiveListed) i) = (i = 2)"
    by (auto simp: answer_def oneDown_current fiveListed_def)
qed

text \<open>
  Claim C3, as stated, asks for five samples when one of five measurement requests fails. In
  the world \<open>oneDown\<close> five stations are listed and only the request of station 3 is rejected:
  the batch does not fail, and it returns the four samples of the stations 1, 2, 4 and 5.
\<close>

theorem getCurrentAirQuality_drops_failed_station:
  "map_sum id (map stationId) (fst (getCurrentAirQuality oneDown start)) = Inr [1, 2, 4, 5]"
  by (simp add: oneDown_samples liveSample_def)

text \<open>
  Claim C3, amended: when five stations are listed and exactly one of the five measurement
  requests fails, the batch does not fail and returns four samples, those of the four
  stations whose request resolved, in the order of the list; each is built from the live
  body, with an index recomputed from its reading; the failed station is absent; and the
  mean index is taken over these four samples.
\<close>

theorem getCurrentAirQuality_one_of_five_fails:
  assumes stations: "fst (getStations w s) = Inr sts"
    and five: "length sts = 5"
    and k: "k < 5"
    and one: "\<forall>i<5. isl (answer w (issue GetStations s) (map st_id sts) i) = (i = k)"
  shows "\<exists>xs. fst (getCurrentAirQuality w s) = Inr xs
      \<and> xs = map (\<lambda>i. liveSample w sts (st_id (sts ! i))
                        (projr (answer w (issue GetStations s) (map st_id sts) i)))
                 (filter (\<lambda>i. i \<noteq> k) [0..<5])
      \<and> length xs = 4
      \<and> (\<forall>x\<in>set xs. aqi x = calculateAQI (reading (measurements x)))
      \<and> calculateAverageAQI xs = sum_list (map aqi xs) / 4"
proof -
  let ?a = "answer w (issue GetStations s) (map st_id sts)"
  let ?xs = "map (\<lambda>i. liveSample w sts (st_id (sts ! i)) (projr (?a i)))
                 (filter (\<lambda>i. i \<noteq> k) [0..<5])"
  have f: "filter (\<lambda>i. \<not> isl (?a i)) [0..<5] = filter (\<lambda>i. i \<noteq> k) [0..<5]"
    using one by (intro filter_cong) simp_all
  have m: "map (\<lambda>i. liveSample w sts (map st_id sts ! i) (projr (?a i)))
             (filter (\<lambda>i. i \<noteq> k) [0..<5]) = ?xs"
    using five by (intro map_cong) simp_all
  have r: "fst (getCurrentAirQuality w s) = Inr ?xs"
    using getCurrentAirQuality_live [OF stations] by (simp only: five f m)
  have l: "length ?xs = 4"
    using all_but_one_of_five [OF k] by simp
  have i: "\<forall>x\<in>set ?xs. aqi x = calculateAQI (reading (measurements x))"
    using liveSample_index by auto
  have "?xs \<noteq> []"
    using l by auto
  then have a: "calculateAverageAQI ?xs = sum_list (map aqi ?xs) / 4"
    using l by (simp add: calculateAverageAQI_def foldl_plus_sum_list del: length_map)
  from r l i a show ?thesis
    by blast
qed

theorem getCurrentAirQuality_one_of_five_fails_witness:
  "\<exists>xs. fst (getCurrentAirQuality oneDown start) = Inr xs \<and> length xs = 4
     \<and> (\<forall>x\<in>set xs. aqi x = calculateAQI (reading (measurements x)))
     \<and> calculateAverageAQI xs = sum_list (map aqi xs) / 4"
  using getCurrentAirQuality_one_of_five_fails
          [OF oneDown_stations _ _ oneDown_exactly_one_fails]
  by (simp add: fiveListed_def)

section \<open>The index of the samples\<close>

lemma liveSample_in_result:
  assumes "fst (getCurrentAirQuality w s) = Inr xs" and "x \<in> set xs"
  shows "\<exists>sts sid data. x = liveSample w sts sid data"
proof -
  obtain sts where "fst (getStations w s) = Inr sts"
    using getStations_Inr [of w s] by auto
  from getCurrentAirQuality_live [OF this] assms show ?thesis
    by auto
qed

lemma withUpstreamIndex_fields:
  "stations_api (withUpstreamIndex f w) = stations_api w"
  "random (withUpstreamIndex f w) = random w"
  "now (withUpstreamIndex f w) = now w"
  "parseFloat (withUpstreamIndex f w) = parseFloat w"
  "toLowerCase (withUpstreamIndex f w) = toLowerCase w"
  by (simp_all add: withUpstreamIndex_def)

lemma withUpstreamIndex_isBucharest: "isBucharest (withUpstreamIndex f w) = isBucharest w"
  by (simp add: fun_eq_iff isBucharest_def withUpstreamIndex_fields split: option.splits)

lemma withUpstreamIndex_fetchCurrent:
  "fetchCurrent (withUpstreamIndex f w) sts sid s = fetchCurrent w sts sid s"
  by (cases "current_api w (length (requests s)) sid")
     (simp_all add: fetchCurrent_def withUpstreamIndex_def liveSample_def
        calculateAQI_def pm25AQI_def pm10AQI_def no2AQI_def)

lemma withUpstreamIndex_fetchAll:
  "fetchAll (withUpstreamIndex f w) sts ids s = fetchAll w sts ids s"
  by (induction ids arbitrary: s) (simp_all add: withUpstreamIndex_fetchCurrent)

lemma withUpstreamIndex_getStations: "getStations (withUpstreamIndex f w) s = getStations w s"
  by (simp add: getStations_def withUpstreamIndex_fields withUpstreamIndex_isBucharest
        split: sum.splits)

lemma withUpstreamIndex_getMockAirQuality:
  "getMockAirQuality (withUpstreamIndex f w) s = getMockAirQuality w s"
  by (simp add: getMockAirQuality_def mockSample_def rnd_def withUpstreamIndex_fields)

lemma withUpstreamIndex_getCurrentAirQuality:
  "getCurrentAirQuality (withUpstreamIndex f w) s = getCurrentAirQuality w s"
  by (simp add: getCurrentAirQuality_def withUpstreamIndex_getStations withUpstreamIndex_fetchAll
        withUpstreamIndex_getMockAirQuality split: prod.splits sum.splits)

text \<open>
  Claim C4: every sample of the aggregated result has the index \<open>calculateAQI\<close> of its
  reading, and an index supplied by the upstream is never used: the samples are the same
  whatever index the upstream puts into the bodies. The samples of \<open>getMockAirQuality\<close>,
  which carry an index drawn independently of their reading, never reach the result, because
  the handler that calls it is not entered.
\<close>

theorem aggregated_index_recomputed:
  assumes "fst (getAllDashboardData w s) = Inr d"
  shows "(\<forall>x\<in>set (airQuality d). aqi x = calculateAQI (reading (measurements x)))
    \<and> fst (getCurrentAirQuality (withUpstreamIndex f w) s) = Inr (airQuality d)"
proof -
  from getAllDashboardData_fields [of w s] assms
  have a: "fst (getCurrentAirQuality w s) = Inr (airQuality d)"
    by auto
  have "aqi x = calculateAQI (reading (measurements x))" if "x \<in> set (airQuality d)" for x
    using liveSample_in_result [OF a that] liveSample_index by auto
  with a show ?thesis
    by (simp add: withUpstreamIndex_getCurrentAirQuality)
qed

theorem aggregated_index_recomputed_witness:
  "\<exists>d. fst (getAllDashboardData oneDown start) = Inr d
     \<and> map stationId (airQuality d) = [1, 2, 4, 5]
     \<and> (\<forall>x\<in>set (airQuality d). aqi x = calculateAQI (reading (measurements x)))
     \<and> fst (getCurrentAirQuality (withUpstreamIndex (\<lambda>n sid. Some 500) oneDown) start)
         = Inr (airQuality d)"
proof -
  obtain d where d: "fst (getAllDashboardData oneDown start) = Inr d"
    and a: "fst (getCurrentAirQuality oneDown start) = Inr (airQuality d)"
    using getAllDashboardData_fields [of oneDown start] by blast
  from a have "airQuality d = map (\<lambda>sid. liveSample oneDown fiveListed sid body10) [1, 2, 4, 5]"
    by (simp add: oneDown_samples)
  then have m: "map stationId (airQuality d) = [1, 2, 4, 5]"
    by (simp add: liveSample_def)
  note r = aggregated_index_recomputed [OF d, of "\<lambda>n sid. Some 500"]
  show ?thesis
    by (rule exI [of _ d]) (intro conjI d m r [THEN conjunct1] r [THEN conjunct2])
qed

section \<open>The aggregation when every upstream request fails\<close>

lemma allDown_getStations: "getStations allDown s = (Inr getMockStations, issue GetStations s)"
  by (simp add: getStations_def allDown_def)

lemma allDown_getCurrentAirQuality:
  "getCurrentAirQuality allDown s =
     (Inr [], s\<lparr>requests := requests s @ [GetStations, GetCurrent 1, GetCurrent 2, GetCurrent 3,
                                             GetCurrent 4, GetCurrent 5]\<rparr>)"
  by (simp add: getCurrentAirQuality_def getStations_def allDown_def getMockStations_def
        fetchCurrent_def issue_def)

lemma allDown_hourly: "\<exists>xs. fst (getHourlyForecast allDown s) = Inr xs \<and> length xs = 24"
  by (simp add: getHourlyForecast_def allDown_def getMockHourlyData_def)

lemma getMockHistoricalData_length: "length (fst (getMockHistoricalData w s)) = 30"
  by (simp add: getMockHistoricalData_def)

lemma allDown_historical_api: "historical_api allDown n sid a b = Inl ApiError"
  by (simp add: allDown_def)

lemma allDown_getHistoricalAirQuality:
  "fst (getHistoricalAirQuality allDown sid a b s) =
     Inr (fst (getMockHistoricalData allDown (issue (GetHistorical sid (isoDate allDown a) (isoDate allDown b)) s)))"
  by (simp add: getHistoricalAirQuality_def allDown_historical_api split_def)

lemma allDown_historical: "\<exists>xs. fst (getHistoricalData allDown s) = Inr xs \<and> length xs = 30"
  by (simp add: getHistoricalData_def allDown_getStations getMockStations_def split_def
        allDown_getHistoricalAirQuality getMockHistoricalData_length)

text \<open>
  Claim C1 at the input where every upstream request is rejected: the aggregation does not
  fail, the station list is the mock list, the hourly forecast has its 24 mock points and the
  history its 30 mock points, but the air-quality samples are the empty list. All five
  measurement requests give \<open>null\<close>, the filter removes them, and the handler that would
  answer with \<open>getMockAirQuality\<close> is not entered, because \<open>getStations\<close> has caught its own
  failure.
\<close>

theorem getAllDashboardData_allDown_no_samples:
  "map_sum id (\<lambda>d. (airQuality d, stations d, length (hourly (weather d)), length (historical d)))
     (fst (getAllDashboardData allDown start)) = Inr ([], getMockStations, 24, 30)"
proof -
  obtain d where d: "fst (getAllDashboardData allDown start) = Inr d"
    and a: "fst (getCurrentAirQuality allDown start) = Inr (airQuality d)"
    and h: "fst (getHourlyForecast allDown (snd (getCurrentWeather allDown
              (snd (getCurrentAirQuality allDown start))))) = Inr (hourly (weather d))"
    and s: "fst (getStations allDown (snd (getHourlyForecast allDown (snd (getCurrentWeather allDown
            (snd (getCurrentAirQuality allDown start))))))) = Inr (stations d)"
    and p: "fst (getHistoricalData allDown (snd (getStations allDown (snd (getHourlyForecast allDown
            (snd (getCurrentWeather allDown (snd (getCurrentAirQuality allDown start)))))))))
            = Inr (historical d)"
    using getAllDashboardData_fields [of allDown start] by blast
  from a have "airQuality d = []"
    by (simp add: allDown_getCurrentAirQuality)
  moreover from s have "stations d = getMockStations"
    by (simp add: allDown_getStations)
  moreover from h allDown_hourly have "length (hourly (weather d)) = 24"
    by (metis sum.inject(2))
  moreover from p allDown_historical have "length (historical d) = 30"
    by (metis sum.inject(2))
  ultimately show ?thesis
    using d by simp
qed

section \<open>The historical query\<close>

lemma fetchAll_state:
  "snd (fetchAll w sts ids s) = s\<lparr>requests := requests s @ map GetCurrent ids\<rparr>"
  by (induction ids arbitrary: s) (simp_all add: fetchCurrent_eq issue_def split_def)

lemma getCurrentAirQuality_requests:
  "fst (getStations w s) = Inr sts \<Longrightarrow>
   requests (snd (getCurrentAirQuality w s)) = requests s @ GetStations # map GetCurrent (map st_id sts)"
  using getStations_state [of w s]
  by (cases "getStations w s") (simp add: getCurrentAirQuality_def split_def fetchAll_state issue_def)

lemma getCurrentWeather_requests:
  "requests (snd (getCurrentWeather w s)) = requests s @ [GetCurrentWeather]"
  by (simp add: getCurrentWeather_def getMockWeatherData_def issue_def drawn_def split: sum.splits)

lemma getHourlyForecast_requests:
  "requests (snd (getHourlyForecast w s)) = requests s @ [GetHourlyForecast]"
  by (simp add: getHourlyForecast_def getMockHourlyData_def issue_def drawn_def split: sum.splits)

lemma getStations_requests: "requests (snd (getStations w s)) = requests s @ [GetStations]"
  by (simp add: getStations_state issue_def)

lemma getMockHistoricalData_requests: "requests (snd (getMockHistoricalData w s)) = requests s"
  by (simp add: getMockHistoricalData_def drawn_def)

lemma getHistoricalAirQuality_requests:
  "requests (snd (getHistoricalAirQuality w sid a b s)) =
     requests s @ [GetHistorical sid (isoDate w a) (isoDate w b)]"
  by (simp add: getHistoricalAirQuality_def split_def getMockHistoricalData_requests issue_def
        split: sum.splits)

lemma getHistoricalAirQuality_result:
  "fst (getHistoricalAirQuality w sid a b s) =
     Inr (case historical_api w (length (requests s)) sid (isoDate w a) (isoDate w b) of
            Inr items \<Rightarrow> map historyPoint items
          | Inl e \<Rightarrow> fst (getMockHistoricalData w
                          (issue (GetHistorical sid (isoDate w a) (isoDate w b)) s)))"
  by (simp add: getHistoricalAirQuality_def split_def split: sum.splits)

text \<open>What \<open>getHistoricalData\<close> does with the station list that it fetches.\<close>

lemma getHistoricalData_own_list:
  assumes "fst (getStations w s) = Inr sts"
  shows "if sts = []
     then fst (getHistoricalData w s) = Inr (fst (getMockHistoricalData w (issue GetStations s)))
        \<and> requests (snd (getHistoricalData w s)) = requests s @ [GetStations]
     else requests (snd (getHistoricalData w s)) =
            requests s @ [GetStations,
              GetHistorical (st_id (hd sts)) (isoDate w (daysBefore w (now w) 30)) (isoDate w (now w))]
        \<and> fst (getHistoricalData w s) =
            Inr (case historical_api w (Suc (length (requests s))) (st_id (hd sts))
                        (isoDate w (daysBefore w (now w) 30)) (isoDate w (now w)) of
                   Inr items \<Rightarrow> map historyPoint items
                 | Inl e \<Rightarrow>
                     fst (getMockHistoricalData w
                       (issue (GetHistorical (st_id (hd sts))
                                 (isoDate w (daysBefore w (now w) 30)) (isoDate w (now w)))
                          (issue GetStations s))))"
proof -
  from assms getStations_state [of w s]
  have g: "getStations w s = (Inr sts, issue GetStations s)"
    by (simp add: prod_eq_iff)
  show ?thesis
  proof (cases sts)
    case Nil
    with g show ?thesis
      by (simp add: getHistoricalData_def split_def getMockHistoricalData_requests issue_def)
  next
    case (Cons st rest)
    have l: "length (requests (issue GetStations s)) = Suc (length (requests s))"
      by (simp add: issue_def)
    from g Cons show ?thesis
      by (simp add: getHistoricalData_def split_def getHistoricalAirQuality_requests
            getHistoricalAirQuality_result l)
         (simp add: issue_def split: sum.splits)
  qed
qed

lemma getAllDashboardData_state:
  "snd (getAllDashboardData w s) = snd (getHistoricalData w (beforeHistory w s))"
  by (simp add: getAllDashboardData_def beforeHistory_def split_def split: sum.splits)

lemma getAllDashboardData_historical:
  "\<exists>d. fst (getAllDashboardData w s) = Inr d
     \<and> fst (getHistoricalData w (beforeHistory w s)) = Inr (historical d)
     \<and> fst (getStations w (snd (getHourlyForecast w (snd (getCurrentWeather w
            (snd (getCurrentAirQuality w s))))))) = Inr (stations d)"
  using getAllDashboardData_fields [of w s] by (auto simp: beforeHistory_def)

text \<open>
  Claim C6, amended: in every run of the aggregation, \<open>getHistoricalData\<close> fetches a station
  list by a request of its own (it need not be the list that the run returns). When that list
  is not empty, the run issues exactly one historical request, for the first station of that
  list and for the dates of \<open>setDate(getDate() - 30)\<close> of now and of now, and the history is
  the answer to that request, mapped item by item, or the fallback when the request fails.
  When that list is empty, no historical request is issued and the history is the output of
  the fallback generator.
\<close>

theorem aggregation_history_from_own_station_list:
  "\<exists>d sts. fst (getAllDashboardData w s) = Inr d
     \<and> fst (getStations w (beforeHistory w s)) = Inr sts
     \<and> (if sts = []
        then historical d = fst (getMockHistoricalData w (issue GetStations (beforeHistory w s)))
           \<and> requests (snd (getAllDashboardData w s)) =
               requests (beforeHistory w s) @ [GetStations]
        else requests (snd (getAllDashboardData w s)) =
               requests (beforeHistory w s) @ [GetStations,
                 GetHistorical (st_id (hd sts)) (isoDate w (daysBefore w (now w) 30))
                   (isoDate w (now w))]
           \<and> historical d =
               (case historical_api w (Suc (length (requests (beforeHistory w s)))) (st_id (hd sts))
                       (isoDate w (daysBefore w (now w) 30)) (isoDate w (now w)) of
                  Inr items \<Rightarrow> map historyPoint items
                | Inl e \<Rightarrow>
                    fst (getMockHistoricalData w
                      (issue (GetHistorical (st_id (hd sts))
                                (isoDate w (daysBefore w (now w) 30)) (isoDate w (now w)))
                         (issue GetStations (beforeHistory w s))))))"
proof -
  obtain d where d: "fst (getAllDashboardData w s) = Inr d"
    and h: "fst (getHistoricalData w (beforeHistory w s)) = Inr (historical d)"
    using getAllDashboardData_historical by blast
  obtain sts where sts: "fst (getStations w (beforeHistory w s)) = Inr sts"
    using getStations_Inr [of w "beforeHistory w s"] by auto
  from getHistoricalData_own_list [OF sts] h
  show ?thesis
    by (intro exI [of _ d] exI [of _ sts])
       (simp add: d sts getAllDashboardData_state split: if_splits)
qed

lemma listChanges_getStations:
  "fst (getStations listChanges s) =
     (if length (requests s) = 4
      then Inr [\<lparr>st_id = 7, st_name = ''G'', st_lat = 0, st_lon = 0,
                 st_county = ''BUCURESTI'', st_city = None\<rparr>]
      else Inr [])"
  by (simp add: getStations_def listChanges_def allDown_def listed_def isBucharest_def)

lemma listChanges_before_stations:
  "requests (snd (getHourlyForecast listChanges (snd (getCurrentWeather listChanges
     (snd (getCurrentAirQuality listChanges start)))))) =
   [GetStations, GetCurrentWeather, GetHourlyForecast]"
proof -
  have "fst (getStations listChanges start) = Inr []"
    by (simp add: listChanges_getStations start_def)
  from getCurrentAirQuality_requests [OF this] show ?thesis
    by (simp add: getHourlyForecast_requests getCurrentWeather_requests start_def)
qed

lemma listChanges_beforeHistory:
  "requests (beforeHistory listChanges start) =
     [GetStations, GetCurrentWeather, GetHourlyForecast, GetStations]"
  by (simp add: beforeHistory_def getStations_requests listChanges_before_stations)

lemma listChanges_historical_api: "historical_api listChanges n sid a b = Inr [emptyItem]"
  by (simp add: listChanges_def)

lemma listChanges_dates:
  "isoDate listChanges (daysBefore listChanges (now listChanges) 30) = - 30"
  "isoDate listChanges (now listChanges) = 0"
  by (simp_all add: listChanges_def allDown_def utcDate_def utcDaysBefore_def)

text \<open>
  Claim C6, as stated, speaks of the station list that the run returns. In the world
  \<open>listChanges\<close> the run returns an empty station list, and yet a historical request is
  issued, for station 7, and the history is its answer and not the fallback:
  \<open>getHistoricalData\<close> has fetched a station list of its own.
\<close>

theorem history_query_despite_empty_station_list:
  "map_sum id (\<lambda>d. (stations d, historical d)) (fst (getAllDashboardData listChanges start))
     = Inr ([], [historyPoint emptyItem])
   \<and> requests (snd (getAllDashboardData listChanges start)) =
       [GetStations, GetCurrentWeather, GetHourlyForecast, GetStations, GetStations,
        GetHistorical 7 (- 30) 0]"
proof -
  obtain d where d: "fst (getAllDashboardData listChanges start) = Inr d"
    and h: "fst (getHistoricalData listChanges (beforeHistory listChanges start))
             = Inr (historical d)"
    and s: "fst (getStations listChanges (snd (getHourlyForecast listChanges
              (snd (getCurrentWeather listChanges (snd (getCurrentAirQuality listChanges start)))))))
             = Inr (stations d)"
    using getAllDashboardData_historical by blast
  from s have s': "stations d = []"
    by (simp add: listChanges_getStations listChanges_before_stations)
  have "fst (getStations listChanges (beforeHistory listChanges start)) =
      Inr [\<lparr>st_id = 7, st_name = ''G'', st_lat = 0, st_lon = 0,
            st_county = ''BUCURESTI'', st_city = None\<rparr>]"
    by (simp add: listChanges_getStations listChanges_beforeHistory)
  from getHistoricalData_own_list [OF this] h
  have "historical d = [historyPoint emptyItem]"
    and "requests (snd (getAllDashboardData listChanges start)) =
       [GetStations, GetCurrentWeather, GetHourlyForecast, GetStations, GetStations,
        GetHistorical 7 (- 30) 0]"
    by (simp_all add: listChanges_beforeHistory listChanges_historical_api listChanges_dates
          getAllDashboardData_state)
  with d s' show ?thesis
    by simp
qed

lemma noStations_getStations: "fst (getStations noStations s) = Inr []"
  by (simp add: getStations_def noStations_def)

theorem aggregation_history_from_own_station_list_witness:
  "(\<exists>d. fst (getAllDashboardData listChanges start) = Inr d
        \<and> historical d = [historyPoint emptyItem])
   \<and> last (requests (snd (getAllDashboardData listChanges start))) = GetHistorical 7 (- 30) 0
   \<and> (\<exists>d. fst (getAllDashboardData noStations start) = Inr d
        \<and> historical d = fst (getMockHistoricalData noStations
                               (issue GetStations (beforeHistory noStations start))))
   \<and> last (requests (snd (getAllDashboardData noStations start))) = GetStations"
proof -
  have l: "fst (getStations listChanges (beforeHistory listChanges start)) =
      Inr [\<lparr>st_id = 7, st_name = ''G'', st_lat = 0, st_lon = 0,
            st_county = ''BUCURESTI'', st_city = None\<rparr>]"
    by (simp add: listChanges_getStations listChanges_beforeHistory)
  from aggregation_history_from_own_station_list [of listChanges start] l
  have a: "(\<exists>d. fst (getAllDashboardData listChanges start) = Inr d
        \<and> historical d = [historyPoint emptyItem])
     \<and> last (requests (snd (getAllDashboardData listChanges start))) = GetHistorical 7 (- 30) 0"
    by (auto simp: listChanges_historical_api listChanges_dates)
  from aggregation_history_from_own_station_list [of noStations start]
  have b: "(\<exists>d. fst (getAllDashboardData noStations start) = Inr d
        \<and> historical d = fst (getMockHistoricalData noStations
                               (issue GetStations (beforeHistory noStations start))))
     \<and> last (requests (snd (getAllDashboardData noStations start))) = GetStations"
    by (auto simp: noStations_getStations)
  from a b show ?thesis
    by blast
qed

section \<open>The size of the fallback data\<close>

text \<open>
  The fallback generators take no argument: \<open>getMockStations\<close> always returns its five
  stations and \<open>getMockHistoricalData\<close> always returns thirty points.
\<close>

lemma mock_generators_fixed_size:
  "length getMockStations = 5 \<and> length (fst (getMockHistoricalData w s)) = 30"
  by (simp add: getMockStations_def getMockHistoricalData_def)

end
